theory Spec2Isabelle
  imports Main "HOL-Library.Sublist"
begin

section \<open>Go library functions used by \<open>util/gitutil/detectgit.go\<close>\<close>

text \<open>
  A Go \<open>string\<close> is a byte sequence, modelled as a HOL \<open>string\<close> (a list of
  characters). The functions of package \<open>strings\<close> below are only ever called with a
  non-empty separator; their behaviour on an empty separator (splitting into UTF-8
  sequences) is not modelled.
\<close>

text \<open>
  \<open>cut sep s\<close> finds the first occurrence of \<open>sep\<close> in \<open>s\<close>, as
  \<open>m := strings.Index(s, sep)\<close> does, and returns \<open>(s[:m], s[m+len(sep):])\<close>;
  \<open>None\<close> stands for \<open>m < 0\<close>.
\<close>

fun cut :: "string \<Rightarrow> string \<Rightarrow> (string \<times> string) option" where
  "cut sep [] = (if sep = [] then Some ([], []) else None)"
| "cut sep (c # cs) =
     (if prefix sep (c # cs) then Some ([], drop (length sep) (c # cs))
      else (case cut sep cs of
              None \<Rightarrow> None
            | Some (a, b) \<Rightarrow> Some (c # a, b)))"

text \<open>
  The loop of \<open>strings.genSplit\<close>: at most \<open>k\<close> cuts, the remainder is the last
  element.
\<close>

fun genSplit :: "string \<Rightarrow> string \<Rightarrow> nat \<Rightarrow> string list" where
  "genSplit s sep 0 = [s]"
| "genSplit s sep (Suc k) =
     (case cut sep s of
        None \<Rightarrow> [s]
      | Some (a, b) \<Rightarrow> a # genSplit b sep k)"

text \<open>
  \<open>strings.Count(s, sep)\<close> for a non-empty \<open>sep\<close>: the number of non-overlapping
  occurrences. The fuel \<open>n\<close> bounds the number of occurrences looked for; \<open>length s\<close>
  is always enough.
\<close>

fun count_upto :: "nat \<Rightarrow> string \<Rightarrow> string \<Rightarrow> nat" where
  "count_upto 0 s sep = 0"
| "count_upto (Suc n) s sep =
     (case cut sep s of
        None \<Rightarrow> 0
      | Some (a, b) \<Rightarrow> Suc (count_upto n b sep))"

definition strings_Count :: "string \<Rightarrow> string \<Rightarrow> nat" where
  "strings_Count s sep = count_upto (length s) s sep"

text \<open>
  \<open>strings.SplitN(s, sep, n)\<close> for \<open>n > 0\<close>: \<open>n\<close> is capped at \<open>len(s) + 1\<close>, and
  \<open>n - 1\<close> cuts are made. \<open>strings.Split(s, sep)\<close> is \<open>genSplit\<close> with
  \<open>n = Count(s, sep) + 1\<close>.
\<close>

definition strings_SplitN :: "string \<Rightarrow> string \<Rightarrow> nat \<Rightarrow> string list" where
  "strings_SplitN s sep n = (if n = 0 then [] else genSplit s sep (min n (length s + 1) - 1))"

definition strings_Split :: "string \<Rightarrow> string \<Rightarrow> string list" where
  "strings_Split s sep = genSplit s sep (strings_Count s sep)"

text \<open>\<open>strings.Join(elems, sep)\<close>.\<close>

fun strings_Join :: "string list \<Rightarrow> string \<Rightarrow> string" where
  "strings_Join [] sep = []"
| "strings_Join [x] sep = x"
| "strings_Join (x # y # ys) sep = x @ sep @ strings_Join (y # ys) sep"

text \<open>
  \<open>strings.Replace(s, old, new, n)\<close> for \<open>n \<ge> 0\<close> and a non-empty \<open>old\<close>: the
  first \<open>n\<close> occurrences of \<open>old\<close> are replaced.
\<close>

fun strings_Replace :: "string \<Rightarrow> string \<Rightarrow> string \<Rightarrow> nat \<Rightarrow> string" where
  "strings_Replace s old new 0 = s"
| "strings_Replace s old new (Suc n) =
     (case cut old s of
        None \<Rightarrow> s
      | Some (a, b) \<Rightarrow> a @ new @ strings_Replace b old new n)"

text \<open>\<open>strings.TrimSuffix(s, suffix)\<close>.\<close>

definition strings_TrimSuffix :: "string \<Rightarrow> string \<Rightarrow> string" where
  "strings_TrimSuffix s suf =
     (if suffix suf s then take (length s - length suf) s else s)"

text \<open>
  Package \<open>path\<close>. \<open>path.Clean\<close> reads the path from left to right and writes to
  a buffer: \<open>out\<close> is the buffer's content \<open>buf[:w]\<close>, and \<open>dotdot\<close> is the index
  where a \<open>..\<close> element must stop backtracking. \<open>backtrack\<close> is the inner loop
  \<open>for out.w > dotdot && out.index(out.w) != '/' { out.w-- }\<close>.
\<close>

fun backtrack :: "string \<Rightarrow> nat \<Rightarrow> nat \<Rightarrow> nat" where
  "backtrack buf dotdot w =
     (if w > dotdot \<and> buf ! w \<noteq> CHR ''/'' then backtrack buf dotdot (w - 1) else w)"

declare backtrack.simps [simp del]

function clean_loop ::"bool \<Rightarrow> string \<Rightarrow> string \<Rightarrow> nat \<Rightarrow> string" where
  "clean_loop rooted [] out dotdot = out"
| "clean_loop rooted (c # cs) out dotdot =
     (if c = CHR ''/'' then clean_loop rooted cs out dotdot
      else if c = CHR ''.'' \<and> (cs = [] \<or> hd cs = CHR ''/'') then
        clean_loop rooted cs out dotdot
      else if c = CHR ''.'' \<and> hd cs = CHR ''.'' \<and> (tl cs = [] \<or> hd (tl cs) = CHR ''/'') then
        (if length out > dotdot then
           clean_loop rooted (tl cs) (take (backtrack out dotdot (length out - 1)) out) dotdot
         else if \<not> rooted then
           (let out' = (if length out > 0 then out @ ''/'' else out) @ ''..''
            in clean_loop rooted (tl cs) out' (length out'))
         else clean_loop rooted (tl cs) out dotdot)
      else
        (let out' = (if rooted \<and> length out \<noteq> 1 \<or> \<not> rooted \<and> length out \<noteq> 0
                     then out @ ''/'' else out)
         in clean_loop rooted (dropWhile (\<lambda>x. x \<noteq> CHR ''/'') (c # cs))
              (out' @ takeWhile (\<lambda>x. x \<noteq> CHR ''/'') (c # cs)) dotdot))"
  by pat_completeness auto
termination
proof (relation "measure (\<lambda>(rooted, p, out, dotdot). length p)", goal_cases)
  case (7 rooted c cs out dotdot x)
  have "length (dropWhile (\<lambda>x. x \<noteq> CHR ''/'') cs) \<le> length cs"
    by (rule length_dropWhile_le)
  with 7(1) show ?case by simp
qed simp_all

definition path_Clean :: "string \<Rightarrow> string" where
  "path_Clean p =
     (if p = [] then ''.''
      else
        (let rooted = (hd p = CHR ''/'');
             out = (if rooted then clean_loop rooted (tl p) ''/'' 1
                    else clean_loop rooted p [] 0)
         in if length out = 0 then ''.'' else out))"

text \<open>
  \<open>path.Join(elem...)\<close>: empty elements are ignored, the others are joined with
  slashes and the result is cleaned; all elements empty gives the empty string.
\<close>

definition path_Join :: "string list \<Rightarrow> string" where
  "path_Join elem =
     (if concat elem = [] then []
      else path_Clean (strings_Join (filter (\<lambda>e. e \<noteq> []) elem) ''/''))"

text \<open>
  Package \<open>path/filepath\<close> on a system whose separator is the slash (every Unix):
  \<open>ToSlash\<close> and \<open>FromSlash\<close> change nothing, and a path is absolute when it starts
  with a slash.
\<close>

definition filepath_ToSlash :: "string \<Rightarrow> string" where
  "filepath_ToSlash p = p"

definition filepath_FromSlash :: "string \<Rightarrow> string" where
  "filepath_FromSlash p = p"

definition filepath_IsAbs :: "string \<Rightarrow> bool" where
  "filepath_IsAbs p = prefix ''/'' p"

section \<open>Errors, metadata and the environment\<close>

text \<open>
  Go errors as values. The six package-level errors are sentinels, \<open>New\<close> is
  \<open>errors.New\<close> or \<open>errors.Errorf\<close> with its formatted message, \<open>Wrap e msg\<close> is
  \<open>errors.Wrap(e, msg)\<close> or \<open>errors.Wrapf\<close>, and \<open>External\<close> is an error coming
  from outside the package (process execution, the file system). \<open>Error\<close> is the
  method \<open>err.Error()\<close>.
\<close>

datatype error =
    ErrNoGitBinary
  | ErrNotAGitDir
  | ErrCouldNotDetectRemote
  | ErrCouldNotDetectGitHash
  | ErrCouldNotDetectGitShortHash
  | ErrCouldNotDetectGitBranch
  | New string
  | External string
  | Wrap error string

fun Error :: "error \<Rightarrow> string" where
  "Error ErrNoGitBinary = ''No git binary found''"
| "Error ErrNotAGitDir = ''Not a git directory''"
| "Error ErrCouldNotDetectRemote = ''Could not auto-detect or parse Git remote URL''"
| "Error ErrCouldNotDetectGitHash = ''Could not auto-detect or parse Git hash''"
| "Error ErrCouldNotDetectGitShortHash = ''Could not auto-detect or parse Git short hash''"
| "Error ErrCouldNotDetectGitBranch = ''Could not auto-detect or parse Git branch''"
| "Error (New msg) = msg"
| "Error (External msg) = msg"
| "Error (Wrap e msg) = msg @ '': '' @ Error e"

record GitMetadata =
  BaseDir :: string
  RelDir :: string
  RemoteURL :: string
  GitURL :: string
  Hash :: string
  ShortHash :: string
  Branch :: "string list"
  Tags :: "string list"
  Timestamp :: string

text \<open>
  What the package reads from outside. \<open>run_git env args dir\<close> is the result
  \<open>(out, err)\<close> of \<open>cmd.Output()\<close> for
  \<open>exec.CommandContext(ctx, "git", args...)\<close> with \<open>cmd.Dir = dir\<close>; \<open>Abs\<close> and
  \<open>EvalSymlinks\<close> are the two functions of \<open>path/filepath\<close> that read the file
  system. \<open>detectGitBinary\<close> is defined in another file of the package, so its result
  is taken as given.
\<close>

record git_env =
  detectGitBinary :: "error option"
  run_git :: "string list \<Rightarrow> string \<Rightarrow> string \<times> error option"
  filepath_Abs :: "string \<Rightarrow> error + string"
  filepath_EvalSymlinks :: "string \<Rightarrow> error + string"

section \<open>Remote URL normalisation\<close>

text \<open>
  \<open>ParseGitRemoteURL\<close> returns a string and an error that is always \<open>nil\<close>; the model
  keeps the pair, with \<open>None\<close> for \<open>nil\<close>.
\<close>

definition ParseGitRemoteURL :: "string \<Rightarrow> string \<times> error option" where
  "ParseGitRemoteURL gitURL =
     (let s = gitURL;
          parts = strings_SplitN gitURL ''://'' 2;
          s = (if length parts = 2 then parts ! 1 else s);
          parts = strings_SplitN s ''@'' 2;
          s = (if length parts = 2 then parts ! 1 else s);
          s = strings_Replace s '':'' ''/'' 1;
          s = strings_TrimSuffix s ''.git''
      in (s, None))"

section \<open>Detection of the single facts\<close>

text \<open>
  Every detector runs one git command in \<open>dir\<close> and returns a value together with
  an error, as the Go functions do: the value is used by the caller also when the error
  is not \<open>nil\<close>. \<open>strings.SplitN(outStr, "\n", 2)[0]\<close> is the first line of the
  output; the list is never empty there (lemma \<open>strings_SplitN_not_Nil\<close>), so the
  index never fails. The newline is the character 10.
\<close>

definition newline :: string where
  "newline = [CHR 0x0A]"

definition detectIsGitDir :: "git_env \<Rightarrow> string \<Rightarrow> error option" where
  "detectIsGitDir env dir =
     (case run_git env [''status''] dir of
        (out, Some err) \<Rightarrow> Some ErrNotAGitDir
      | (out, None) \<Rightarrow> None)"

definition detectGitRemoteURL :: "git_env \<Rightarrow> string \<Rightarrow> string \<times> error option" where
  "detectGitRemoteURL env dir =
     (case run_git env [''config'', ''--get'', ''remote.origin.url''] dir of
        (out, Some err) \<Rightarrow>
          ([], Some (Wrap ErrCouldNotDetectRemote
                       (''returned error '' @ Error err @ '': '' @ out)))
      | (outStr, None) \<Rightarrow>
          if outStr = [] then
            ([], Some (Wrap ErrCouldNotDetectRemote ''no remote origin url output''))
          else (hd (strings_SplitN outStr newline 2), None))"

definition detectGitBaseDir :: "git_env \<Rightarrow> string \<Rightarrow> string \<times> error option" where
  "detectGitBaseDir env dir =
     (case run_git env [''rev-parse'', ''--show-toplevel''] dir of
        (out, Some err) \<Rightarrow> ([], Some (Wrap err ''detect git directory''))
      | (outStr, None) \<Rightarrow>
          if outStr = [] then ([], Some (New ''No output returned for git base dir''))
          else (hd (strings_SplitN outStr newline 2), None))"

definition detectGitHash :: "git_env \<Rightarrow> string \<Rightarrow> string \<times> error option" where
  "detectGitHash env dir =
     (case run_git env [''rev-parse'', ''HEAD''] dir of
        (out, Some err) \<Rightarrow>
          ([], Some (Wrap ErrCouldNotDetectGitHash
                       (''returned error '' @ Error err @ '': '' @ out)))
      | (outStr, None) \<Rightarrow>
          if outStr = [] then
            ([], Some (Wrap ErrCouldNotDetectGitHash ''no remote origin url output''))
          else (hd (strings_SplitN outStr newline 2), None))"

definition detectGitShortHash :: "git_env \<Rightarrow> string \<Rightarrow> string \<times> error option" where
  "detectGitShortHash env dir =
     (case run_git env [''rev-parse'', ''--short=8'', ''HEAD''] dir of
        (out, Some err) \<Rightarrow>
          ([], Some (Wrap ErrCouldNotDetectGitShortHash
                       (''returned error '' @ Error err @ '': '' @ out)))
      | (outStr, None) \<Rightarrow>
          if outStr = [] then
            ([], Some (Wrap ErrCouldNotDetectGitShortHash ''no remote origin url output''))
          else (hd (strings_SplitN outStr newline 2), None))"

text \<open>A \<open>nil\<close> slice and an empty slice are both the empty list.\<close>

definition detectGitBranch :: "git_env \<Rightarrow> string \<Rightarrow> string list \<times> error option" where
  "detectGitBranch env dir =
     (case run_git env [''rev-parse'', ''--abbrev-ref'', ''HEAD''] dir of
        (out, Some err) \<Rightarrow>
          ([], Some (Wrap ErrCouldNotDetectGitBranch
                       (''returned error '' @ Error err @ '': '' @ out)))
      | (outStr, None) \<Rightarrow>
          if outStr \<noteq> [] then (strings_Split outStr newline, None) else ([], None))"

definition detectGitTags :: "git_env \<Rightarrow> string \<Rightarrow> string list \<times> error option" where
  "detectGitTags env dir =
     (case run_git env [''describe'', ''--exact-match'', ''--tags''] dir of
        (out, Some err) \<Rightarrow> ([], Some (Wrap err ''detect git current tags''))
      | (outStr, None) \<Rightarrow>
          if outStr \<noteq> [] then (strings_Split outStr newline, None) else ([], None))"

definition detectGitTimestamp :: "git_env \<Rightarrow> string \<Rightarrow> string \<times> error option" where
  "detectGitTimestamp env dir =
     (case run_git env [''log'', ''-1'', ''--format=%ct''] dir of
        (out, Some err) \<Rightarrow> (''0'', None)
      | (outStr, None) \<Rightarrow>
          if outStr = [] then (''0'', None)
          else (hd (strings_SplitN outStr newline 2), None))"

section \<open>The directory relative to the repository root\<close>

text \<open>
  The loop \<open>for index := range basePathParts\<close> returns at the first index where the
  two lists differ; it runs only when \<open>pathParts\<close> is at least as long as
  \<open>basePathParts\<close>, so every index is in range.
\<close>

definition parts_differ :: "string list \<Rightarrow> string list \<Rightarrow> bool" where
  "parts_differ basePathParts pathParts =
     list_ex (\<lambda>index. basePathParts ! index \<noteq> pathParts ! index) [0..<length basePathParts]"

definition gitRelDir :: "git_env \<Rightarrow> string \<Rightarrow> string \<Rightarrow> string \<times> bool \<times> error option" where
  "gitRelDir env basePath path =
     (case filepath_Abs env path of
        Inl err \<Rightarrow> ([], False, Some (Wrap err (''get abs path for '' @ path)))
      | Inr absPath \<Rightarrow>
     (case filepath_EvalSymlinks env absPath of
        Inl err \<Rightarrow> ([], False, Some (Wrap err (''eval symlinks for '' @ absPath)))
      | Inr absPath2 \<Rightarrow>
          if \<not> filepath_IsAbs basePath then
            ([], False, Some (New (''git base path '' @ basePath @ '' is not absolute'')))
          else
            (let basePathSlash = filepath_ToSlash basePath;
                 pathSlash = filepath_ToSlash absPath2;
                 basePathParts = strings_Split basePathSlash ''/'';
                 pathParts = strings_Split pathSlash ''/''
             in if length pathParts < length basePathParts then ([], False, None)
                else if parts_differ basePathParts pathParts then ([], False, None)
                else
                  (let relPath = strings_Join (drop (length basePathParts) pathParts) ''/''
                   in if relPath = [] then (''.'', True, None)
                      else (filepath_FromSlash relPath, True, None)))))"

section \<open>Assembly of the metadata\<close>

text \<open>
  \<open>Metadata\<close> returns a pointer and an error; \<open>None\<close> in the first component is the
  \<open>nil\<close> pointer, \<open>None\<close> in the second the \<open>nil\<close> error. \<open>keep err retErr\<close> is the
  statement \<open>if err != nil { retErr = err }\<close>.
\<close>

definition keep :: "error option \<Rightarrow> error option \<Rightarrow> error option" where
  "keep err retErr = (if err \<noteq> None then err else retErr)"

definition Metadata :: "git_env \<Rightarrow> string \<Rightarrow> GitMetadata option \<times> error option" where
  "Metadata env dir =
     (case detectGitBinary env of Some err \<Rightarrow> (None, Some err) | None \<Rightarrow>
     (case detectIsGitDir env dir of Some err \<Rightarrow> (None, Some err) | None \<Rightarrow>
     (case detectGitBaseDir env dir of (baseDir, Some err) \<Rightarrow> (None, Some err)
      | (baseDir, None) \<Rightarrow>
     (let retErr = None;
          (remoteURL, err) = detectGitRemoteURL env dir;
          retErr = keep err retErr;
          (gitURL, err) = (if remoteURL \<noteq> [] then ParseGitRemoteURL remoteURL
                           else ([], None))
      in case err of Some err \<Rightarrow> (None, Some err) | None \<Rightarrow>
     (let (hash, err) = detectGitHash env dir;
          retErr = keep err retErr;
          (shortHash, err) = detectGitShortHash env dir;
          retErr = keep err retErr;
          (branch, err) = detectGitBranch env dir;
          retErr = keep err retErr;
          (tags, err) = detectGitTags env dir;
          tags = (if err \<noteq> None then [] else tags);
          (timestamp, err) = detectGitTimestamp env dir;
          retErr = keep err retErr
      in case gitRelDir env baseDir dir of
           (relDir, isRel, Some err) \<Rightarrow>
             (None, Some (Wrap err (''get rel dir for '' @ dir
                                     @ '' when base git path is '' @ baseDir)))
         | (relDir, isRel, None) \<Rightarrow>
             if \<not> isRel then
               (None, Some (New ''unexpected non-relative path within git dir''))
             else
               (Some \<lparr>BaseDir = filepath_ToSlash baseDir,
                      RelDir = filepath_ToSlash relDir,
                      RemoteURL = remoteURL,
                      GitURL = gitURL,
                      Hash = hash,
                      ShortHash = shortHash,
                      Branch = branch,
                      Tags = tags,
                      Timestamp = timestamp\<rparr>, retErr))))))"

text \<open>
  \<open>Clone\<close>, for a receiver that is not \<open>nil\<close>. Fields the composite literal does not
  name have their zero value.
\<close>

definition Clone :: "GitMetadata \<Rightarrow> GitMetadata" where
  "Clone gm =
     \<lparr>BaseDir = BaseDir gm,
      RelDir = RelDir gm,
      RemoteURL = [],
      GitURL = GitURL gm,
      Hash = Hash gm,
      ShortHash = [],
      Branch = Branch gm,
      Tags = Tags gm,
      Timestamp = []\<rparr>"

section \<open>References and their rewriting\<close>

text \<open>
  Modelled from the spec: the types \<open>domain.Reference\<close>, \<open>domain.Target\<close> and
  \<open>domain.Command\<close> are declared in package \<open>domain\<close>, of which only the uses in
  \<open>detectgit.go\<close> are known. A reference carries a remote-location triple (git URL,
  tag, local path), an import reference and a name; the composite literals of
  \<open>ReferenceWithGitMeta\<close> name exactly these five fields, in this order, the name
  being the field \<open>Target\<close> of a target and \<open>Command\<close> of a command. The accessors
  \<open>GetGitURL\<close>, \<open>GetTag\<close>, \<open>GetLocalPath\<close>, \<open>GetImportRef\<close> and \<open>GetName\<close>
  return them. \<open>Reference\<close> is an interface, so a value of any other type that has
  these accessors can be passed as well: \<open>Unsupported\<close> stands for such a value, with
  what its accessors return. The reference passed is not the \<open>nil\<close> interface value.
\<close>

datatype Reference =
    Target (GetGitURL: string) (GetTag: string) (GetLocalPath: string)
      (GetImportRef: string) (GetName: string)
  | Command (GetGitURL: string) (GetTag: string) (GetLocalPath: string)
      (GetImportRef: string) (GetName: string)
  | Unsupported (GetGitURL: string) (GetTag: string) (GetLocalPath: string)
      (GetImportRef: string) (GetName: string)

datatype panic = Panic string

text \<open>
  \<open>ReferenceWithGitMeta\<close> takes a pointer to the metadata (\<open>None\<close> is \<open>nil\<close>) and
  either returns a reference or panics (\<open>Inl\<close>).
\<close>

definition ReferenceWithGitMeta :: "Reference \<Rightarrow> GitMetadata option \<Rightarrow> panic + Reference" where
  "ReferenceWithGitMeta ref gitMeta =
     (case gitMeta of None \<Rightarrow> Inr ref
      | Some gm \<Rightarrow>
          if GitURL gm = [] then Inr ref
          else
            (let gitURL = GitURL gm;
                 gitURL = (if RelDir gm \<noteq> [] then path_Join [gitURL, RelDir gm]
                           else gitURL);
                 tag = GetTag ref;
                 localPath = GetLocalPath ref;
                 name = GetName ref;
                 importRef = GetImportRef ref;
                 tag = (if tag = [] then
                          (if length (Tags gm) > 0 then Tags gm ! 0
                           else if length (Branch gm) > 0 then Branch gm ! 0
                           else Hash gm)
                        else tag)
             in case ref of
                  Target _ _ _ _ _ \<Rightarrow> Inr (Target gitURL tag localPath importRef name)
                | Command _ _ _ _ _ \<Rightarrow> Inr (Command gitURL tag localPath importRef name)
                | Unsupported _ _ _ _ _ \<Rightarrow> Inl (Panic ''not supported for this type'')))"

section \<open>Notions used to state the properties\<close>

text \<open>
  \<open>split_on c s\<close> lists the pieces of \<open>s\<close> between the occurrences of the character
  \<open>c\<close>, by recursion on \<open>s\<close>. It is what \<open>strings.Split\<close> computes for a separator
  of one character (lemma \<open>strings_Split_single\<close>), and it is easier to reason about
  than the counting loop.
\<close>

fun split_on :: "char \<Rightarrow> string \<Rightarrow> string list" where
  "split_on c [] = [[]]"
| "split_on c (x # xs) =
     (if x = c then [] # split_on c xs
      else (case split_on c xs of y # ys \<Rightarrow> (x # y) # ys | [] \<Rightarrow> [[x]]))"

text \<open>
  The representative error of a sequence of detections, given in detection order: the
  last one that is an error, \<open>None\<close> when there is none.
\<close>

fun last_error :: "error option list \<Rightarrow> error option" where
  "last_error [] = None"
| "last_error (e # es) = (case last_error es of Some x \<Rightarrow> Some x | None \<Rightarrow> e)"

text \<open>
  Example environments. The git commands answer from a table of outputs; a command
  that is not in the table fails with an exit status. Paths are absolute and free of
  symbolic links already, so \<open>Abs\<close> and \<open>EvalSymlinks\<close> return them unchanged.
\<close>

definition example_run ::
  "(string list \<times> string \<times> error option) list \<Rightarrow> string list \<Rightarrow> string
     \<Rightarrow> string \<times> error option" where
  "example_run outputs args dir =
     (case map_of outputs args of
        Some r \<Rightarrow> r
      | None \<Rightarrow> ([], Some (External ''exit status 128'')))"

definition example_env :: "(string list \<times> string \<times> error option) list \<Rightarrow> git_env" where
  "example_env outputs =
     \<lparr>detectGitBinary = None,
      run_git = example_run outputs,
      filepath_Abs = Inr,
      filepath_EvalSymlinks = Inr\<rparr>"

text \<open>
  A repository at \<open>/repo\<close> with an SSH remote, on branch \<open>main\<close>, whose head is tagged
  \<open>v1.0\<close>.
\<close>

definition example_outputs :: "(string list \<times> string \<times> error option) list" where
  "example_outputs =
     [([''status''], (''On branch main'' @ newline, None)),
      ([''rev-parse'', ''--show-toplevel''], (''/repo'' @ newline, None)),
      ([''config'', ''--get'', ''remote.origin.url''],
         (''git@github.com:org/repo.git'' @ newline, None)),
      ([''rev-parse'', ''HEAD''], (''abc123'' @ newline, None)),
      ([''rev-parse'', ''--short=8'', ''HEAD''], (''abc123'' @ newline, None)),
      ([''rev-parse'', ''--abbrev-ref'', ''HEAD''], (''main'' @ newline, None)),
      ([''describe'', ''--exact-match'', ''--tags''], (''v1.0'' @ newline, None)),
      ([''log'', ''-1'', ''--format=%ct''], (''1600000000'' @ newline, None))]"

text \<open>The same repository where the listed commands fail.\<close>

definition example_env_failing :: "string list list \<Rightarrow> git_env" where
  "example_env_failing cmds =
     example_env (filter (\<lambda>(args, r). args \<notin> set cmds) example_outputs)"

text \<open>The same repository with another remote URL.\<close>

definition example_env_remote :: "string \<Rightarrow> git_env" where
  "example_env_remote url =
     example_env (([''config'', ''--get'', ''remote.origin.url''], (url @ newline, None))
                  # example_outputs)"

definition example_metadata :: GitMetadata where
  "example_metadata =
     \<lparr>BaseDir = ''/repo'',
      RelDir = ''sub/dir'',
      RemoteURL = ''git@github.com:org/repo.git'',
      GitURL = ''github.com/org/repo'',
      Hash = ''abc123'',
      ShortHash = ''abc123'',
      Branch = [''main''],
      Tags = [''v1.0''],
      Timestamp = ''1600000000''\<rparr>"

section \<open>Properties\<close>

subsection \<open>Cutting and splitting\<close>

lemma cut_None_notin: "sep \<noteq> [] \<Longrightarrow> hd sep \<notin> set s \<Longrightarrow> cut sep s = None"
  by (induction s) (auto simp: prefix_def neq_Nil_conv)

lemma cut_single_Some: "cut [c] s = Some (a, b) \<Longrightarrow> s = a @ c # b \<and> c \<notin> set a"
  by (induction s arbitrary: a) (auto split: if_splits option.splits)

lemma cut_single_None: "cut [c] s = None \<Longrightarrow> c \<notin> set s"
  by (induction s) (auto split: if_splits option.splits)

lemma genSplit_not_Nil: "genSplit s sep k \<noteq> []"
  by (cases k) (auto split: option.splits)

lemma strings_SplitN_not_Nil: "0 < n \<Longrightarrow> strings_SplitN s sep n \<noteq> []"
  by (simp add: strings_SplitN_def genSplit_not_Nil)

lemma genSplit_no_sep: "cut sep s = None \<Longrightarrow> genSplit s sep k = [s]"
  by (cases k) auto

lemma split_on_not_Nil [simp]: "split_on c s \<noteq> []"
  by (induction s) (auto split: list.splits)

lemma split_on_notin: "c \<notin> set s \<Longrightarrow> split_on c s = [s]"
  by (induction s) auto

lemma split_on_cut: "c \<notin> set a \<Longrightarrow> split_on c (a @ c # b) = a # split_on c b"
  by (induction a) auto

lemma split_on_append: "split_on c (a @ c # b) = split_on c a @ split_on c b"
  by (induction a) (auto split: list.splits)

lemma count_upto_single: "length s \<le> n \<Longrightarrow> count_upto n s [c] = count_list s c"
proof (induction n arbitrary: s)
  case 0
  then show ?case by simp
next
  case (Suc n)
  show ?case
  proof (cases "cut [c] s")
    case None
    then show ?thesis using cut_single_None [OF None] by (simp add: count_list_0_iff)
  next
    case (Some p)
    obtain a b where p: "p = (a, b)" by (cases p)
    from cut_single_Some [OF Some [unfolded p]] have s: "s = a @ c # b" and a: "c \<notin> set a"
      by auto
    from s Suc.prems have "length b \<le> n" by simp
    from Suc.IH [OF this] show ?thesis using Some p s a by (simp add: count_list_0_iff)
  qed
qed

lemma genSplit_single: "count_list s c \<le> k \<Longrightarrow> genSplit s [c] k = split_on c s"
proof (induction k arbitrary: s)
  case 0
  then have "c \<notin> set s" by (simp add: count_list_0_iff)
  then show ?case by (simp add: split_on_notin)
next
  case (Suc k)
  show ?case
  proof (cases "cut [c] s")
    case None
    then show ?thesis using cut_single_None [OF None] by (simp add: split_on_notin)
  next
    case (Some p)
    obtain a b where p: "p = (a, b)" by (cases p)
    from cut_single_Some [OF Some [unfolded p]] have s: "s = a @ c # b" and a: "c \<notin> set a"
      by auto
    from s a Suc.prems have "count_list b c \<le> k" by (simp add: count_list_0_iff)
    from Suc.IH [OF this] show ?thesis using Some p s a by (simp add: split_on_cut)
  qed
qed

text \<open>For a separator of one character, \<open>strings.Split\<close> is \<open>split_on\<close>.\<close>

lemma strings_Split_single: "strings_Split s [c] = split_on c s"
  by (simp add: strings_Split_def strings_Count_def count_upto_single genSplit_single)

lemma strings_Join_Cons:
  "ys \<noteq> [] \<Longrightarrow> strings_Join (x # ys) sep = x @ sep @ strings_Join ys sep"
  by (cases ys) auto

lemma strings_Join_append:
  "xs \<noteq> [] \<Longrightarrow> ys \<noteq> [] \<Longrightarrow>
   strings_Join (xs @ ys) sep = strings_Join xs sep @ sep @ strings_Join ys sep"
proof (induction xs)
  case Nil
  then show ?case by simp
next
  case (Cons x xs)
  show ?case
  proof (cases "xs = []")
    case True
    with Cons.prems show ?thesis by (simp add: strings_Join_Cons)
  next
    case False
    with Cons show ?thesis by (simp add: strings_Join_Cons)
  qed
qed

text \<open>Joining the pieces with the separator gives the string back.\<close>

lemma strings_Join_split_on: "strings_Join (split_on c s) [c] = s"
proof (induction s)
  case Nil
  then show ?case by simp
next
  case (Cons x xs)
  show ?case
  proof (cases "x = c")
    case True
    with Cons show ?thesis by (simp add: strings_Join_Cons)
  next
    case False
    obtain y ys where sp: "split_on c xs = y # ys"
      by (cases "split_on c xs") auto
    with Cons have "strings_Join (y # ys) [c] = xs" by simp
    then have "strings_Join ((x # y) # ys) [c] = x # xs"
      by (cases ys) auto
    with False sp show ?thesis by simp
  qed
qed

text \<open>
  The pieces of \<open>b\<close> are the first pieces of \<open>p\<close> exactly when \<open>p\<close> is \<open>b\<close> or
  continues \<open>b\<close> with a separator; the remaining pieces, joined, are the continuation.
\<close>

lemma prefix_split_on_rest:
  assumes "prefix (split_on c b) (split_on c p)"
  shows "(p = b \<and> drop (length (split_on c b)) (split_on c p) = [])
         \<or> p = b @ [c] @ strings_Join (drop (length (split_on c b)) (split_on c p)) [c]"
proof -
  from assms obtain rest where r: "split_on c p = split_on c b @ rest"
    by (auto simp: prefix_def)
  show ?thesis
  proof (cases "rest = []")
    case True
    with r have "strings_Join (split_on c p) [c] = strings_Join (split_on c b) [c]" by simp
    then have "p = b" by (simp add: strings_Join_split_on)
    with True r show ?thesis by simp
  next
    case False
    from r have "strings_Join (split_on c p) [c] = strings_Join (split_on c b @ rest) [c]"
      by simp
    then have "p = b @ [c] @ strings_Join rest [c]"
      using False by (simp add: strings_Join_split_on strings_Join_append)
    with r show ?thesis by simp
  qed
qed

lemma prefix_split_on_iff:
  "prefix (split_on c b) (split_on c p) \<longleftrightarrow> p = b \<or> prefix (b @ [c]) p"
proof
  assume "prefix (split_on c b) (split_on c p)"
  from prefix_split_on_rest [OF this] show "p = b \<or> prefix (b @ [c]) p"
    by (auto simp: prefix_def)
next
  assume "p = b \<or> prefix (b @ [c]) p"
  then show "prefix (split_on c b) (split_on c p)"
  proof
    assume "p = b"
    then show ?thesis by simp
  next
    assume "prefix (b @ [c]) p"
    then obtain r where "p = b @ c # r" by (auto simp: prefix_def)
    then show ?thesis by (simp add: split_on_append)
  qed
qed

text \<open>The loop over the indices finds a difference exactly when there is no prefix.\<close>

lemma parts_differ_iff:
  assumes le: "length bp \<le> length pp"
  shows "parts_differ bp pp \<longleftrightarrow> \<not> prefix bp pp"
proof -
  have "prefix bp pp \<longleftrightarrow> (\<forall>i<length bp. bp ! i = pp ! i)"
  proof
    assume "prefix bp pp"
    then show "\<forall>i<length bp. bp ! i = pp ! i"
      by (auto simp: prefix_def nth_append)
  next
    assume a: "\<forall>i<length bp. bp ! i = pp ! i"
    have "take (length bp) pp = bp"
      using le a by (intro nth_equalityI) auto
    then show "prefix bp pp" by (metis take_is_prefix)
  qed
  then show ?thesis by (auto simp: parts_differ_def list_ex_iff)
qed

subsection \<open>Assembly: which results are possible\<close>

lemma ParseGitRemoteURL_no_error: "snd (ParseGitRemoteURL u) = None"
  by (simp add: ParseGitRemoteURL_def Let_def)

lemma detectGitTimestamp_no_error: "snd (detectGitTimestamp env dir) = None"
  by (simp add: detectGitTimestamp_def split: prod.splits option.splits)

lemma keep_chain:
  "keep None (keep e4 (keep e3 (keep e2 (keep e1 None)))) = last_error [e1, e2, e3, e4]"
  by (cases e1; cases e2; cases e3; cases e4) (simp_all add: keep_def)

lemma Metadata_success:
  assumes "detectGitBinary env = None"
    and "detectIsGitDir env dir = None"
    and "detectGitBaseDir env dir = (baseDir, None)"
    and "gitRelDir env baseDir dir = (relDir, True, None)"
  shows "Metadata env dir =
     (Some \<lparr>BaseDir = baseDir,
            RelDir = relDir,
            RemoteURL = fst (detectGitRemoteURL env dir),
            GitURL = (if fst (detectGitRemoteURL env dir) \<noteq> []
                      then fst (ParseGitRemoteURL (fst (detectGitRemoteURL env dir)))
                      else []),
            Hash = fst (detectGitHash env dir),
            ShortHash = fst (detectGitShortHash env dir),
            Branch = fst (detectGitBranch env dir),
            Tags = (if snd (detectGitTags env dir) \<noteq> None then []
                    else fst (detectGitTags env dir)),
            Timestamp = fst (detectGitTimestamp env dir)\<rparr>,
      last_error [snd (detectGitRemoteURL env dir), snd (detectGitHash env dir),
                  snd (detectGitShortHash env dir), snd (detectGitBranch env dir)])"
proof -
  have b: "fst (detectGitBaseDir env dir) = baseDir" "snd (detectGitBaseDir env dir) = None"
    using assms(3) by simp_all
  have r: "fst (gitRelDir env baseDir dir) = relDir" "fst (snd (gitRelDir env baseDir dir))"
    "snd (snd (gitRelDir env baseDir dir)) = None"
    using assms(4) by simp_all
  show ?thesis
    unfolding Metadata_def Let_def split_def
    by (simp add: assms(1,2) b r ParseGitRemoteURL_no_error detectGitTimestamp_no_error
        keep_chain filepath_ToSlash_def del: last_error.simps)
qed

lemma Metadata_Some_D:
  assumes "Metadata env dir = (Some m, e)"
  shows "detectGitBinary env = None \<and> detectIsGitDir env dir = None
         \<and> detectGitBaseDir env dir = (fst (detectGitBaseDir env dir), None)
         \<and> gitRelDir env (fst (detectGitBaseDir env dir)) dir =
             (fst (gitRelDir env (fst (detectGitBaseDir env dir)) dir), True, None)"
proof -
  have "detectGitBinary env = None \<and> detectIsGitDir env dir = None
         \<and> snd (detectGitBaseDir env dir) = None
         \<and> fst (snd (gitRelDir env (fst (detectGitBaseDir env dir)) dir))
         \<and> snd (snd (gitRelDir env (fst (detectGitBaseDir env dir)) dir)) = None"
    using assms unfolding Metadata_def Let_def split_def
    by (auto split: option.splits if_splits)
  then show ?thesis
    by (simp add: prod_eq_iff)
qed

lemma Metadata_not_rel:
  assumes "\<not> fst (snd (gitRelDir env (fst (detectGitBaseDir env dir)) dir))"
  shows "fst (Metadata env dir) = None \<and> snd (Metadata env dir) \<noteq> None"
  using assms unfolding Metadata_def Let_def split_def
  by (auto split: option.splits if_splits)

subsection \<open>The relative directory\<close>

text \<open>
  When \<open>gitRelDir\<close> says that the directory is inside the repository, the resolved
  directory is the base path, or the base path continued by a slash and the relative
  path.
\<close>

lemma gitRelDir_True:
  assumes "gitRelDir env base dir = (rel, True, e)"
  shows "\<exists>absPath resolved.
           filepath_Abs env dir = Inr absPath
           \<and> filepath_EvalSymlinks env absPath = Inr resolved
           \<and> ((resolved = base \<and> rel = ''.'')
              \<or> (\<exists>rest. resolved = base @ ''/'' @ rest
                         \<and> rel = (if rest = [] then ''.'' else rest)))"
proof -
  from assms obtain absPath where a: "filepath_Abs env dir = Inr absPath"
    by (auto simp: gitRelDir_def split: sum.splits)
  from assms a obtain resolved where r: "filepath_EvalSymlinks env absPath = Inr resolved"
    by (auto simp: gitRelDir_def split: sum.splits)
  let ?bp = "split_on CHR ''/'' base" and ?pp = "split_on CHR ''/'' resolved"
  let ?relPath = "strings_Join (drop (length ?bp) ?pp) ''/''"
  from assms a r have le: "length ?bp \<le> length ?pp"
    by (auto simp: gitRelDir_def strings_Split_single filepath_ToSlash_def Let_def
        split: if_splits)
  from assms a r le have nd: "\<not> parts_differ ?bp ?pp"
    by (auto simp: gitRelDir_def strings_Split_single filepath_ToSlash_def Let_def
        split: if_splits)
  from assms a r le nd have rel: "rel = (if ?relPath = [] then ''.'' else ?relPath)"
    by (auto simp: gitRelDir_def strings_Split_single filepath_ToSlash_def
        filepath_FromSlash_def Let_def split: if_splits)
  from nd le have "prefix ?bp ?pp" by (simp add: parts_differ_iff)
  from prefix_split_on_rest [OF this]
  have "(resolved = base \<and> rel = ''.'')
        \<or> (resolved = base @ ''/'' @ ?relPath
            \<and> rel = (if ?relPath = [] then ''.'' else ?relPath))"
    using rel by auto
  then show ?thesis using a r by blast
qed

lemma gitRelDir_outside:
  assumes "filepath_Abs env dir = Inr absPath"
    and "filepath_EvalSymlinks env absPath = Inr resolved"
    and "resolved \<noteq> base" and "\<not> prefix (base @ ''/'') resolved"
  shows "\<not> fst (snd (gitRelDir env base dir))"
proof -
  let ?bp = "split_on CHR ''/'' base" and ?pp = "split_on CHR ''/'' resolved"
  from assms(3,4) have np: "\<not> prefix ?bp ?pp"
    using prefix_split_on_iff [of "CHR ''/''" base resolved] by simp
  show ?thesis
  proof (cases "length ?pp < length ?bp")
    case True
    then show ?thesis using assms(1,2)
      by (simp add: gitRelDir_def strings_Split_single filepath_ToSlash_def Let_def)
  next
    case False
    then have "parts_differ ?bp ?pp" using np by (simp add: parts_differ_iff)
    then show ?thesis using assms(1,2) False
      by (simp add: gitRelDir_def strings_Split_single filepath_ToSlash_def Let_def)
  qed
qed

subsection \<open>The example repository\<close>

lemma example_paths:
  "filepath_Abs (example_env outputs) p = Inr p"
  "filepath_EvalSymlinks (example_env outputs) p = Inr p"
  by (simp_all add: example_env_def)

lemma example_Metadata_sub:
  "Metadata (example_env example_outputs) ''/repo/sub/dir'' =
     (Some \<lparr>BaseDir = ''/repo'', RelDir = ''sub/dir'',
            RemoteURL = ''git@github.com:org/repo.git'', GitURL = ''github.com/org/repo'',
            Hash = ''abc123'', ShortHash = ''abc123'', Branch = [''main'', []],
            Tags = [''v1.0'', []], Timestamp = ''1600000000''\<rparr>, None)"
  by code_simp

lemma example_Metadata_root:
  "Metadata (example_env example_outputs) ''/repo'' =
     (Some \<lparr>BaseDir = ''/repo'', RelDir = ''.'',
            RemoteURL = ''git@github.com:org/repo.git'', GitURL = ''github.com/org/repo'',
            Hash = ''abc123'', ShortHash = ''abc123'', Branch = [''main'', []],
            Tags = [''v1.0'', []], Timestamp = ''1600000000''\<rparr>, None)"
  by code_simp

lemma example_baseDir:
  "detectGitBaseDir (example_env example_outputs) dir = (''/repo'', None)"
  by (simp add: detectGitBaseDir_def example_env_def example_run_def example_outputs_def
      newline_def strings_SplitN_def)

subsection \<open>Clone\<close>

text \<open>
  C1, as the code has it: the clone has an empty remote URL and an empty timestamp, and
  its base dir, rel dir, canonical URL, hash, branch and tags are those of the original.
\<close>

theorem Clone_fields:
  "RemoteURL (Clone m) = [] \<and> Timestamp (Clone m) = []
   \<and> BaseDir (Clone m) = BaseDir m \<and> RelDir (Clone m) = RelDir m
   \<and> GitURL (Clone m) = GitURL m \<and> Hash (Clone m) = Hash m
   \<and> Branch (Clone m) = Branch m \<and> Tags (Clone m) = Tags m"
  by (simp add: Clone_def)

text \<open>
  C1 as stated asks for empty tags in the clone. The clone of metadata tagged \<open>v1.0\<close>
  is still tagged \<open>v1.0\<close>.
\<close>

theorem Clone_tags_counterexample:
  "Tags example_metadata = [''v1.0'']
   \<and> Tags (Clone example_metadata) = [''v1.0'']
   \<and> Tags (Clone example_metadata) \<noteq> []"
  by (simp add: Clone_def example_metadata_def)

subsection \<open>Rewriting a reference\<close>

text \<open>
  C2: with a non-empty canonical URL, whenever \<open>ReferenceWithGitMeta\<close> returns a
  reference, its tag is the tag of the input if that is not empty, else the first tag of
  the metadata, else its first branch, else its hash; and for a target or a command it
  does return a reference.
\<close>

theorem rewrite_selector:
  assumes "GitURL m \<noteq> []"
  shows "(\<forall>r. ReferenceWithGitMeta ref (Some m) = Inr r \<longrightarrow>
            GetTag r = (if GetTag ref \<noteq> [] then GetTag ref
                        else if Tags m \<noteq> [] then hd (Tags m)
                        else if Branch m \<noteq> [] then hd (Branch m)
                        else Hash m))
         \<and> ((\<exists>g t l i n. ref = Target g t l i n \<or> ref = Command g t l i n) \<longrightarrow>
            (\<exists>r. ReferenceWithGitMeta ref (Some m) = Inr r))"
  using assms
  by (cases ref) (auto simp: ReferenceWithGitMeta_def Let_def hd_conv_nth)

theorem rewrite_selector_witness:
  "GitURL example_metadata \<noteq> []
   \<and> (\<exists>r. ReferenceWithGitMeta (Target [] [] ''./sub'' [] ''build'') (Some example_metadata)
            = Inr r \<and> GetTag r = ''v1.0'')
   \<and> (\<exists>r. ReferenceWithGitMeta (Target [] [] ''./sub'' [] ''build'')
            (Some (example_metadata\<lparr>Tags := []\<rparr>)) = Inr r \<and> GetTag r = ''main'')
   \<and> (\<exists>r. ReferenceWithGitMeta (Command [] [] ''./sub'' [] ''BUILD'')
            (Some (example_metadata\<lparr>Tags := [], Branch := []\<rparr>)) = Inr r
          \<and> GetTag r = ''abc123'')
   \<and> (\<exists>r. ReferenceWithGitMeta (Target [] ''v0.9'' ''./sub'' [] ''build'')
            (Some example_metadata) = Inr r \<and> GetTag r = ''v0.9'')"
  using rewrite_selector [of example_metadata "Target [] [] ''./sub'' [] ''build''"]
    rewrite_selector [of "example_metadata\<lparr>Tags := []\<rparr>" "Target [] [] ''./sub'' [] ''build''"]
    rewrite_selector [of "example_metadata\<lparr>Tags := [], Branch := []\<rparr>"
      "Command [] [] ''./sub'' [] ''BUILD''"]
    rewrite_selector [of example_metadata "Target [] ''v0.9'' ''./sub'' [] ''build''"]
  by (auto simp: example_metadata_def)

text \<open>
  C7: with a non-empty canonical URL, a target is rewritten to a target and a command
  to a command, with the name, the local path and the import reference of the input;
  the git URL is \<open>path.Join\<close> of the canonical URL and the relative directory when that
  is not empty, and the canonical URL otherwise.
\<close>

theorem rewrite_frame:
  assumes "GitURL m \<noteq> []"
  shows "\<exists>tag tag'.
           ReferenceWithGitMeta (Target g t l i n) (Some m) =
             Inr (Target (if RelDir m \<noteq> [] then path_Join [GitURL m, RelDir m] else GitURL m)
                    tag l i n)
           \<and> ReferenceWithGitMeta (Command g t l i n) (Some m) =
               Inr (Command (if RelDir m \<noteq> [] then path_Join [GitURL m, RelDir m]
                             else GitURL m)
                      tag' l i n)"
  using assms by (simp add: ReferenceWithGitMeta_def Let_def)

lemma example_joins:
  "path_Join [''github.com/org/repo'', ''sub/dir''] = ''github.com/org/repo/sub/dir''"
  "path_Join [''github.com/org/repo'', ''.''] = ''github.com/org/repo''"
  by code_simp+

theorem rewrite_frame_witness:
  "GitURL example_metadata \<noteq> []
   \<and> (\<exists>tag. ReferenceWithGitMeta (Target [] [] ''./sub'' ''imp'' ''build'')
              (Some example_metadata) =
              Inr (Target ''github.com/org/repo/sub/dir'' tag ''./sub'' ''imp'' ''build''))
   \<and> (\<exists>tag. ReferenceWithGitMeta (Command [] [] ''./sub'' ''imp'' ''build'')
              (Some example_metadata) =
              Inr (Command ''github.com/org/repo/sub/dir'' tag ''./sub'' ''imp'' ''build''))
   \<and> (\<exists>tag. ReferenceWithGitMeta (Target [] [] ''./sub'' ''imp'' ''build'')
              (Some (example_metadata\<lparr>RelDir := ''.''\<rparr>)) =
              Inr (Target ''github.com/org/repo'' tag ''./sub'' ''imp'' ''build''))
   \<and> (\<exists>tag. ReferenceWithGitMeta (Target [] [] ''./sub'' ''imp'' ''build'')
              (Some (example_metadata\<lparr>RelDir := []\<rparr>)) =
              Inr (Target ''github.com/org/repo'' tag ''./sub'' ''imp'' ''build''))"
  using rewrite_frame [of example_metadata "[]" "[]" "''./sub''" "''imp''" "''build''"]
    rewrite_frame [of "example_metadata\<lparr>RelDir := ''.''\<rparr>" "[]" "[]" "''./sub''" "''imp''"
      "''build''"]
    rewrite_frame [of "example_metadata\<lparr>RelDir := []\<rparr>" "[]" "[]" "''./sub''" "''imp''"
      "''build''"]
  by (auto simp: example_metadata_def example_joins)




text \<open>
  C6, as the code has it: \<open>ParseGitRemoteURL\<close> never returns an error;
  \<open>ReferenceWithGitMeta\<close> returns the reference unchanged, whatever its type, when the
  metadata is \<open>nil\<close> or has an empty canonical URL; and it returns a reference for
  every target and every command, whatever the metadata.
\<close>

theorem no_failure:
  "snd (ParseGitRemoteURL u) = None
   \<and> ReferenceWithGitMeta ref None = Inr ref
   \<and> (GitURL m = [] \<longrightarrow> ReferenceWithGitMeta ref (Some m) = Inr ref)
   \<and> (\<exists>r. ReferenceWithGitMeta (Target g t l i n) gitMeta = Inr r)
   \<and> (\<exists>r. ReferenceWithGitMeta (Command g t l i n) gitMeta = Inr r)"
  by (cases gitMeta)
     (simp_all add: ParseGitRemoteURL_no_error ReferenceWithGitMeta_def Let_def)

theorem no_failure_witness:
  "GitURL (example_metadata\<lparr>GitURL := []\<rparr>) = []
   \<and> ReferenceWithGitMeta (Unsupported [] [] ''./sub'' [] ''other'')
        (Some (example_metadata\<lparr>GitURL := []\<rparr>))
      = Inr (Unsupported [] [] ''./sub'' [] ''other'')
   \<and> ReferenceWithGitMeta (Target [] [] ''./sub'' [] ''build'')
        (Some (example_metadata\<lparr>GitURL := []\<rparr>))
      = Inr (Target [] [] ''./sub'' [] ''build'')"
  using no_failure [of "''git@github.com:org/repo.git''" "Unsupported [] [] ''./sub'' [] ''other''"
      "example_metadata\<lparr>GitURL := []\<rparr>"]
    no_failure [of "''git@github.com:org/repo.git''" "Target [] [] ''./sub'' [] ''build''"
      "example_metadata\<lparr>GitURL := []\<rparr>"]
  by simp

text \<open>
  C6 as stated says that rewriting never aborts, for any input. For a reference that is
  neither a target nor a command, and metadata with a canonical URL, it panics.
\<close>

theorem rewrite_panic_counterexample:
  "GitURL example_metadata = ''github.com/org/repo''
   \<and> ReferenceWithGitMeta (Unsupported [] [] ''./sub'' [] ''other'') (Some example_metadata)
       = Inl (Panic ''not supported for this type'')"
  by (simp add: ReferenceWithGitMeta_def example_metadata_def Let_def)

subsection \<open>Normalisation of the remote URL\<close>

text \<open>
  C8: the three example remotes of the specification are all normalised to
  \<open>github.com/org/repo\<close>.
\<close>

theorem ParseGitRemoteURL_examples:
  "fst (ParseGitRemoteURL ''https://user@github.com/org/repo.git'') = ''github.com/org/repo''
   \<and> fst (ParseGitRemoteURL ''git@github.com:org/repo.git'') = ''github.com/org/repo''
   \<and> fst (ParseGitRemoteURL ''ssh://github.com/org/repo'') = ''github.com/org/repo''"
  by (simp add: ParseGitRemoteURL_def strings_SplitN_def strings_TrimSuffix_def
      suffix_to_prefix Let_def)

text \<open>
  C5, as the code has it: a URL with no colon (so no scheme and no SSH separator), no
  \<open>@\<close> and no \<open>.git\<close> suffix is returned unchanged.
\<close>

theorem ParseGitRemoteURL_canonical:
  assumes "CHR '':'' \<notin> set u" and "CHR ''@'' \<notin> set u" and "\<not> suffix ''.git'' u"
  shows "fst (ParseGitRemoteURL u) = u"
proof -
  have scheme: "strings_SplitN u ''://'' 2 = [u]"
    using assms(1) by (simp add: strings_SplitN_def cut_None_notin genSplit_no_sep)
  have user: "strings_SplitN u ''@'' 2 = [u]"
    using assms(2) by (simp add: strings_SplitN_def cut_None_notin genSplit_no_sep)
  have colon: "cut '':'' u = None"
    using assms(1) by (simp add: cut_None_notin)
  show ?thesis
    using assms(3) by (simp add: ParseGitRemoteURL_def scheme user colon strings_TrimSuffix_def)
qed

theorem ParseGitRemoteURL_canonical_witness:
  "CHR '':'' \<notin> set ''github.com/org/repo'' \<and> CHR ''@'' \<notin> set ''github.com/org/repo''
   \<and> \<not> suffix ''.git'' ''github.com/org/repo''
   \<and> fst (ParseGitRemoteURL ''github.com/org/repo'') = ''github.com/org/repo''"
  using ParseGitRemoteURL_canonical [of "''github.com/org/repo''"]
  by (simp add: suffix_to_prefix)

text \<open>
  C5 as stated asks only for no scheme, no user info and no \<open>.git\<close> suffix. A host with
  a port has none of them, and its colon is replaced.
\<close>

theorem ParseGitRemoteURL_colon_counterexample:
  "\<not> sublist ''://'' ''host:8080/org/repo''
   \<and> CHR ''@'' \<notin> set ''host:8080/org/repo''
   \<and> \<not> suffix ''.git'' ''host:8080/org/repo''
   \<and> fst (ParseGitRemoteURL ''host:8080/org/repo'') = ''host/8080/org/repo''
   \<and> fst (ParseGitRemoteURL ''host:8080/org/repo'') \<noteq> ''host:8080/org/repo''"
  by (simp add: ParseGitRemoteURL_def strings_SplitN_def strings_TrimSuffix_def
      suffix_to_prefix sublist_Cons_right Let_def)

subsection \<open>Assembly\<close>

lemma failed_detection_empty:
  "snd (detectGitRemoteURL env dir) \<noteq> None \<Longrightarrow> fst (detectGitRemoteURL env dir) = []"
  "snd (detectGitHash env dir) \<noteq> None \<Longrightarrow> fst (detectGitHash env dir) = []"
  "snd (detectGitShortHash env dir) \<noteq> None \<Longrightarrow> fst (detectGitShortHash env dir) = []"
  "snd (detectGitBranch env dir) \<noteq> None \<Longrightarrow> fst (detectGitBranch env dir) = []"
  by (auto simp: detectGitRemoteURL_def detectGitHash_def detectGitShortHash_def
      detectGitBranch_def split: prod.splits option.splits if_splits)

lemma failed_timestamp_zero:
  "snd (run_git env [''log'', ''-1'', ''--format=%ct''] dir) \<noteq> None \<Longrightarrow>
   fst (detectGitTimestamp env dir) = ''0''"
  by (auto simp: detectGitTimestamp_def split: prod.splits option.splits)

text \<open>
  C3, as the code has it: when the checks before the detections and the computation of
  the relative directory succeed, \<open>Metadata\<close> returns a record whatever the detections
  do. The record has the detected base directory, the computed relative directory and,
  field by field, what each detection returned: the value it detected, or the empty
  value where the detection of the remote URL, the hash, the short hash or the branch
  failed. The error returned with it is the last failure among these four, in this
  order, and none when all four succeeded. A failure of the tag detection leaves the
  tags empty, a failure of the timestamp command leaves the timestamp \<open>0\<close>, and
  neither is part of the error.
\<close>

theorem Metadata_partial_failures:
  assumes "detectGitBinary env = None"
    and "detectIsGitDir env dir = None"
    and "detectGitBaseDir env dir = (baseDir, None)"
    and "gitRelDir env baseDir dir = (relDir, True, None)"
  shows "Metadata env dir =
           (Some \<lparr>BaseDir = baseDir,
                  RelDir = relDir,
                  RemoteURL = fst (detectGitRemoteURL env dir),
                  GitURL = (if fst (detectGitRemoteURL env dir) \<noteq> []
                            then fst (ParseGitRemoteURL (fst (detectGitRemoteURL env dir)))
                            else []),
                  Hash = fst (detectGitHash env dir),
                  ShortHash = fst (detectGitShortHash env dir),
                  Branch = fst (detectGitBranch env dir),
                  Tags = (if snd (detectGitTags env dir) \<noteq> None then []
                          else fst (detectGitTags env dir)),
                  Timestamp = fst (detectGitTimestamp env dir)\<rparr>,
            last_error [snd (detectGitRemoteURL env dir),
                        snd (detectGitHash env dir),
                        snd (detectGitShortHash env dir),
                        snd (detectGitBranch env dir)])
         \<and> (snd (detectGitRemoteURL env dir) \<noteq> None \<longrightarrow> fst (detectGitRemoteURL env dir) = [])
         \<and> (snd (detectGitHash env dir) \<noteq> None \<longrightarrow> fst (detectGitHash env dir) = [])
         \<and> (snd (detectGitShortHash env dir) \<noteq> None \<longrightarrow> fst (detectGitShortHash env dir) = [])
         \<and> (snd (detectGitBranch env dir) \<noteq> None \<longrightarrow> fst (detectGitBranch env dir) = [])
         \<and> (snd (run_git env [''log'', ''-1'', ''--format=%ct''] dir) \<noteq> None \<longrightarrow>
              fst (detectGitTimestamp env dir) = ''0'')
         \<and> last_error [None, None, None, None] = None"
  using Metadata_success [OF assms]
  by (simp add: failed_detection_empty failed_timestamp_zero)

theorem Metadata_partial_failures_witness:
  "Metadata (example_env_failing [[''config'', ''--get'', ''remote.origin.url''],
                                   [''rev-parse'', ''HEAD''],
                                   [''describe'', ''--exact-match'', ''--tags'']]) ''/repo''
     = (Some \<lparr>BaseDir = ''/repo'', RelDir = ''.'', RemoteURL = [], GitURL = [],
              Hash = [], ShortHash = ''abc123'', Branch = [''main'', []], Tags = [],
              Timestamp = ''1600000000''\<rparr>,
        Some (Wrap ErrCouldNotDetectGitHash ''returned error exit status 128: ''))"
proof -
  let ?env = "example_env_failing [[''config'', ''--get'', ''remote.origin.url''],
                                   [''rev-parse'', ''HEAD''],
                                   [''describe'', ''--exact-match'', ''--tags'']]"
  have pre: "detectGitBinary ?env = None" "detectIsGitDir ?env ''/repo'' = None"
    "detectGitBaseDir ?env ''/repo'' = (''/repo'', None)"
    "gitRelDir ?env ''/repo'' ''/repo'' = (''.'', True, None)"
    by code_simp+
  have detected:
    "detectGitRemoteURL ?env ''/repo'' =
       ([], Some (Wrap ErrCouldNotDetectRemote ''returned error exit status 128: ''))"
    "detectGitHash ?env ''/repo'' =
       ([], Some (Wrap ErrCouldNotDetectGitHash ''returned error exit status 128: ''))"
    "detectGitShortHash ?env ''/repo'' = (''abc123'', None)"
    "detectGitBranch ?env ''/repo'' = ([''main'', []], None)"
    "detectGitTags ?env ''/repo'' =
       ([], Some (Wrap (External ''exit status 128'') ''detect git current tags''))"
    "detectGitTimestamp ?env ''/repo'' = (''1600000000'', None)"
    by code_simp+
  from Metadata_partial_failures [OF pre] show ?thesis
    by (simp add: detected)
qed

text \<open>
  C3 as stated counts the timestamp among the detections whose failure is returned as
  the error. When the timestamp command is the only one that fails, the record has the
  timestamp \<open>0\<close> and no error is returned.
\<close>

theorem Metadata_timestamp_counterexample:
  "run_git (example_env_failing [[''log'', ''-1'', ''--format=%ct'']])
       [''log'', ''-1'', ''--format=%ct''] ''/repo''
     = ([], Some (External ''exit status 128''))
   \<and> Metadata (example_env_failing [[''log'', ''-1'', ''--format=%ct'']]) ''/repo''
     = (Some \<lparr>BaseDir = ''/repo'', RelDir = ''.'',
              RemoteURL = ''git@github.com:org/repo.git'', GitURL = ''github.com/org/repo'',
              Hash = ''abc123'', ShortHash = ''abc123'', Branch = [''main'', []],
              Tags = [''v1.0'', []], Timestamp = ''0''\<rparr>, None)"
  by code_simp

text \<open>
  C4: when \<open>Metadata\<close> returns a record, the resolved directory is the base directory
  of the record, and then the relative directory is \<open>.\<close>, or it is the base directory
  continued by a slash and the relative directory (\<open>.\<close> standing for an empty
  continuation). When the resolved directory is neither the detected base directory
  nor a continuation of it after a slash, \<open>Metadata\<close> returns no record and an error.
\<close>

theorem relDir_within_baseDir:
  "(Metadata env dir = (Some m, e) \<longrightarrow>
      (\<exists>absPath resolved.
          filepath_Abs env dir = Inr absPath
          \<and> filepath_EvalSymlinks env absPath = Inr resolved
          \<and> BaseDir m = fst (detectGitBaseDir env dir)
          \<and> ((resolved = BaseDir m \<and> RelDir m = ''.'')
             \<or> (\<exists>rest. resolved = BaseDir m @ ''/'' @ rest
                        \<and> RelDir m = (if rest = [] then ''.'' else rest)))
          \<and> (resolved = BaseDir m \<longrightarrow> RelDir m = ''.'')))
   \<and> (filepath_Abs env dir = Inr absPath' \<and> filepath_EvalSymlinks env absPath' = Inr resolved'
        \<and> resolved' \<noteq> fst (detectGitBaseDir env dir)
        \<and> \<not> prefix (fst (detectGitBaseDir env dir) @ ''/'') resolved'
       \<longrightarrow> fst (Metadata env dir) = None \<and> snd (Metadata env dir) \<noteq> None)"
proof (intro conjI impI)
  assume ok: "Metadata env dir = (Some m, e)"
  let ?base = "fst (detectGitBaseDir env dir)"
  let ?rel = "fst (gitRelDir env ?base dir)"
  from Metadata_Some_D [OF ok]
  have pre: "detectGitBinary env = None" "detectIsGitDir env dir = None"
    "detectGitBaseDir env dir = (?base, None)" "gitRelDir env ?base dir = (?rel, True, None)"
    by simp_all
  from Metadata_success [OF pre] ok have m: "BaseDir m = ?base" "RelDir m = ?rel"
    by auto
  from gitRelDir_True [OF pre(4)] m
  show "\<exists>absPath resolved.
          filepath_Abs env dir = Inr absPath
          \<and> filepath_EvalSymlinks env absPath = Inr resolved
          \<and> BaseDir m = fst (detectGitBaseDir env dir)
          \<and> ((resolved = BaseDir m \<and> RelDir m = ''.'')
             \<or> (\<exists>rest. resolved = BaseDir m @ ''/'' @ rest
                        \<and> RelDir m = (if rest = [] then ''.'' else rest)))
          \<and> (resolved = BaseDir m \<longrightarrow> RelDir m = ''.'')"
    by auto
next
  assume "filepath_Abs env dir = Inr absPath' \<and> filepath_EvalSymlinks env absPath' = Inr resolved'
        \<and> resolved' \<noteq> fst (detectGitBaseDir env dir)
        \<and> \<not> prefix (fst (detectGitBaseDir env dir) @ ''/'') resolved'"
  then have "\<not> fst (snd (gitRelDir env (fst (detectGitBaseDir env dir)) dir))"
    by (intro gitRelDir_outside) auto
  from Metadata_not_rel [OF this]
  show "fst (Metadata env dir) = None" and "snd (Metadata env dir) \<noteq> None" by simp_all
qed

theorem relDir_within_baseDir_witness:
  "(\<exists>m e. Metadata (example_env example_outputs) ''/repo/sub/dir'' = (Some m, e)
          \<and> BaseDir m = ''/repo'' \<and> RelDir m = ''sub/dir''
          \<and> ''/repo/sub/dir'' = BaseDir m @ ''/'' @ RelDir m)
   \<and> (\<exists>m e. Metadata (example_env example_outputs) ''/repo'' = (Some m, e)
            \<and> BaseDir m = ''/repo'' \<and> RelDir m = ''.'')
   \<and> fst (Metadata (example_env example_outputs) ''/repository'') = None
   \<and> snd (Metadata (example_env example_outputs) ''/repository'') \<noteq> None"
proof -
  let ?env = "example_env example_outputs"
  let ?sub = "\<lparr>BaseDir = ''/repo'', RelDir = ''sub/dir'',
               RemoteURL = ''git@github.com:org/repo.git'', GitURL = ''github.com/org/repo'',
               Hash = ''abc123'', ShortHash = ''abc123'', Branch = [''main'', []],
               Tags = [''v1.0'', []], Timestamp = ''1600000000''\<rparr>"
  let ?root = "?sub\<lparr>RelDir := ''.''\<rparr>"
  have base: "\<And>dir. fst (detectGitBaseDir ?env dir) = ''/repo''"
    by (simp add: example_baseDir)
  have root: "Metadata ?env ''/repo'' = (Some ?root, None)"
    by (simp add: example_Metadata_root)
  from relDir_within_baseDir [of ?env "''/repo/sub/dir''" ?sub None]
  have 1: "\<exists>m e. Metadata ?env ''/repo/sub/dir'' = (Some m, e)
          \<and> BaseDir m = ''/repo'' \<and> RelDir m = ''sub/dir''
          \<and> ''/repo/sub/dir'' = BaseDir m @ ''/'' @ RelDir m"
    by (simp add: example_Metadata_sub)
  from relDir_within_baseDir [of ?env "''/repo''" ?root None] root
  have 2: "\<exists>m e. Metadata ?env ''/repo'' = (Some m, e) \<and> BaseDir m = ''/repo'' \<and> RelDir m = ''.''"
    by (simp add: example_paths)
  from relDir_within_baseDir [of ?env "''/repository''" _ _ "''/repository''" "''/repository''"]
  have 3: "fst (Metadata ?env ''/repository'') = None
           \<and> snd (Metadata ?env ''/repository'') \<noteq> None"
    by (simp add: example_paths base)
  from 1 2 3 show ?thesis by blast
qed

text \<open>
  C10: the remote URL \<open>.git\<close> is not empty and is normalised to the empty string. When
  it is the detected remote and \<open>Metadata\<close> returns a record, the record has the remote
  URL \<open>.git\<close> and an empty canonical URL, and \<open>ReferenceWithGitMeta\<close> returns every
  reference unchanged for it.
\<close>

theorem dot_git_remote:
  "''.git'' \<noteq> [] \<and> fst (ParseGitRemoteURL ''.git'') = []
   \<and> (fst (detectGitRemoteURL env dir) = ''.git'' \<and> Metadata env dir = (Some m, e) \<longrightarrow>
        RemoteURL m = ''.git'' \<and> GitURL m = []
        \<and> ReferenceWithGitMeta ref (Some m) = Inr ref)"
proof -
  have p: "fst (ParseGitRemoteURL ''.git'') = []"
    by (simp add: ParseGitRemoteURL_def strings_SplitN_def strings_TrimSuffix_def
        suffix_to_prefix Let_def)
  have "RemoteURL m = ''.git'' \<and> GitURL m = [] \<and> ReferenceWithGitMeta ref (Some m) = Inr ref"
    if r: "fst (detectGitRemoteURL env dir) = ''.git''" and ok: "Metadata env dir = (Some m, e)"
  proof -
    let ?base = "fst (detectGitBaseDir env dir)"
    let ?rel = "fst (gitRelDir env ?base dir)"
    from Metadata_Some_D [OF ok]
    have pre: "detectGitBinary env = None" "detectIsGitDir env dir = None"
      "detectGitBaseDir env dir = (?base, None)" "gitRelDir env ?base dir = (?rel, True, None)"
      by simp_all
    from Metadata_success [OF pre] ok r p have "RemoteURL m = ''.git''" "GitURL m = []"
      by auto
    then show ?thesis by (simp add: ReferenceWithGitMeta_def)
  qed
  with p show ?thesis by simp
qed

theorem dot_git_remote_witness:
  "fst (detectGitRemoteURL (example_env_remote ''.git'') ''/repo/sub/dir'') = ''.git''
   \<and> (\<exists>m e. Metadata (example_env_remote ''.git'') ''/repo/sub/dir'' = (Some m, e)
            \<and> RemoteURL m = ''.git'' \<and> GitURL m = []
            \<and> ReferenceWithGitMeta (Target [] [] ''./sub'' [] ''build'') (Some m)
                = Inr (Target [] [] ''./sub'' [] ''build''))"
proof -
  let ?env = "example_env_remote ''.git''"
  let ?m = "\<lparr>BaseDir = ''/repo'', RelDir = ''sub/dir'', RemoteURL = ''.git'', GitURL = [],
             Hash = ''abc123'', ShortHash = ''abc123'', Branch = [''main'', []],
             Tags = [''v1.0'', []], Timestamp = ''1600000000''\<rparr>"
  have r: "fst (detectGitRemoteURL ?env ''/repo/sub/dir'') = ''.git''"
    by code_simp
  have ok: "Metadata ?env ''/repo/sub/dir'' = (Some ?m, None)"
    by code_simp
  from dot_git_remote [of ?env "''/repo/sub/dir''" ?m None "Target [] [] ''./sub'' [] ''build''"]
    r ok
  show ?thesis by simp
qed

end
